theory Spec2Isabelle
  imports Complex_Main
begin

section \<open>The revolute joint of the multibody tree\<close>

text \<open>
  A shallow embedding of \<^verbatim>\<open>multibody/multibody_tree/joints/revolute_joint.h\<close>:
  the class template \<^verbatim>\<open>RevoluteJoint<T>\<close>, its constructor, its context-dependent
  accessors, its force injection, its blueprint and its scalar conversion.

  The scalar type \<^verbatim>\<open>T\<close> of the template is a type variable: the values of
  that type are stored, read and added, nothing else. The coefficients of the axis,
  which are \<^verbatim>\<open>double\<close> for every \<^verbatim>\<open>T\<close>, are reals: every finite double is a
  real, and the comparisons of the constructor are exact on doubles. The arithmetic
  of \<^verbatim>\<open>normalized()\<close> keeps what the double range does to the squared norm (it
  overflows to infinity, it underflows to zero); the rounding of a finite result is
  left out.

  A call that ends in a failed \<^verbatim>\<open>DRAKE_DEMAND\<close> returns \<open>Inl\<close> of the failure; a
  call that returns gives \<open>Inr\<close> of its result, which for a method writing through a
  pointer is the object written. A pointer that may be null is an \<open>option\<close>.
\<close>

subsection \<open>Failures\<close>

text \<open>
  One constructor for each \<^verbatim>\<open>DRAKE_DEMAND\<close> of the header, and one for each error
  kind raised by the collaborators of the joint.
  \<^item> \<open>DegenerateConstruction\<close>: line 65, \<^verbatim>\<open>DRAKE_DEMAND(!axis.isZero(kEpsilon))\<close>;
  \<^item> \<open>NullForces\<close>: line 142, \<^verbatim>\<open>DRAKE_DEMAND(forces != nullptr)\<close>;
  \<^item> \<open>SizeMismatch\<close>: line 143,
    \<^verbatim>\<open>DRAKE_DEMAND(forces->CheckHasRightSizeForModel(...))\<close>, and a container too
    short for the offset of a mobilizer;
  \<^item> \<open>DofOutOfRange\<close>: line 157, \<^verbatim>\<open>DRAKE_DEMAND(joint_dof == 0)\<close>;
  \<^item> \<open>NotOneMobilizer\<close>: line 197,
    \<^verbatim>\<open>DRAKE_DEMAND(get_implementation().get_num_mobilizers() == 1)\<close>;
  \<^item> \<open>NotRevoluteMobilizer\<close>: line 201, \<^verbatim>\<open>DRAKE_DEMAND(mobilizer != nullptr)\<close>
    after the \<^verbatim>\<open>dynamic_cast\<close>;
  \<^item> \<open>UnboundAccess\<close>: the joint has no tree or no implementation yet;
  \<^item> \<open>MissingFrame\<close>: the target tree of a scalar conversion lacks a frame.
\<close>

datatype error =
    DegenerateConstruction
  | NullForces
  | SizeMismatch
  | DofOutOfRange
  | NotOneMobilizer
  | NotRevoluteMobilizer
  | UnboundAccess
  | MissingFrame

subsection \<open>Vectors of three doubles\<close>

type_synonym Vector3d = "real \<times> real \<times> real"

text \<open>\<^verbatim>\<open>std::numeric_limits<double>::epsilon()\<close>, the gap between 1 and the next double.\<close>

definition kEpsilon :: real where
  "kEpsilon = 1 / 2 ^ 52"

text \<open>
  Eigen's \<^verbatim>\<open>DenseBase::isZero(prec)\<close>: every coefficient is much smaller than 1 at
  precision \<open>prec\<close>, that is \<^verbatim>\<open>abs(x) <= abs(1) * prec\<close>. The test is coefficient-wise.
\<close>

definition isZero :: "Vector3d \<Rightarrow> real \<Rightarrow> bool" where
  "isZero v prec =
     (case v of (x, y, z) \<Rightarrow>
        \<bar>x\<bar> \<le> \<bar>1\<bar> * prec \<and> \<bar>y\<bar> \<le> \<bar>1\<bar> * prec \<and> \<bar>z\<bar> \<le> \<bar>1\<bar> * prec)"

definition squaredNorm :: "Vector3d \<Rightarrow> real" where
  "squaredNorm v = (case v of (x, y, z) \<Rightarrow> x * x + y * y + z * z)"

text \<open>The magnitude of a vector (Eigen's \<^verbatim>\<open>norm()\<close>).\<close>

definition norm3 :: "Vector3d \<Rightarrow> real" where
  "norm3 v = sqrt (squaredNorm v)"

text \<open>
  The value of a double computation whose operands are finite and whose result is not
  negative: a real, or positive infinity.
\<close>

datatype double_result = Finite real | Infinity

text \<open>
  Eigen's \<^verbatim>\<open>squaredNorm()\<close> as the doubles compute it, \<^verbatim>\<open>x*x + y*y + z*z\<close>. A
  sum that reaches \<open>2^1024\<close>, the first power of two beyond the largest double, is
  infinite. A product of at most \<open>2^-1075\<close>, half the smallest positive double, rounds
  to zero, so that the sum is zero when all three products are such. Otherwise the sum
  is taken exactly: the rounding of the five operations is left out, and with it the
  side on which a sum within rounding error of \<open>2^1024\<close> falls.
\<close>

definition squaredNorm_double :: "Vector3d \<Rightarrow> double_result" where
  "squaredNorm_double v =
     (case v of (x, y, z) \<Rightarrow>
        if 2 ^ 1024 \<le> x * x + y * y + z * z then Infinity
        else if x * x \<le> 1 / 2 ^ 1075 \<and> y * y \<le> 1 / 2 ^ 1075 \<and> z * z \<le> 1 / 2 ^ 1075
        then Finite 0
        else Finite (x * x + y * y + z * z))"

text \<open>
  Eigen's \<^verbatim>\<open>MatrixBase::normalized()\<close>: with \<open>z\<close> the squared norm, the vector
  divided by \<open>sqrt z\<close> when \<open>z > 0\<close>, the vector itself otherwise. An infinite \<open>z\<close>
  is positive and its square root is infinite, and a finite coefficient divided by
  infinity is zero: the result is then the zero vector. The rounding of the square
  root and of the quotients is left out.
\<close>

definition normalized :: "Vector3d \<Rightarrow> Vector3d" where
  "normalized v =
     (case squaredNorm_double v of
        Infinity \<Rightarrow> (0, 0, 0)
      | Finite z \<Rightarrow>
          if z > 0 then (case v of (x, y, w) \<Rightarrow> (x / sqrt z, y / sqrt z, w / sqrt z))
          else v)"

subsection \<open>Frames, trees, mobilizers, joints, containers\<close>

text \<open>\<^verbatim>\<open>Frame<T>\<close>: a named reference attached to a body.\<close>

record 'T Frame =
  frame_name :: string

text \<open>
  \<^verbatim>\<open>MultibodyTree<T>\<close>, as far as the joint reads it: its frames and the total
  numbers of generalized positions and velocities of the mechanism.
\<close>

record 'T MultibodyTree =
  frames :: "'T Frame list"
  num_positions :: nat
  num_velocities :: nat

text \<open>The offsets assigned to a mobilizer when the tree is finalized.\<close>

record MobilizerTopology =
  positions_start :: nat
  velocities_start :: nat

text \<open>\<^verbatim>\<open>RevoluteMobilizer<T>\<close>: one generalized position and one generalized velocity.\<close>

record 'T RevoluteMobilizer =
  inboard_frame :: "'T Frame"
  outboard_frame :: "'T Frame"
  axis_F :: Vector3d
  topology :: MobilizerTopology

text \<open>
  \<^verbatim>\<open>Mobilizer<T>\<close> is a class with one subclass for each kinematic type; the joint
  tells them apart with a \<^verbatim>\<open>dynamic_cast\<close>.
\<close>

datatype 'T Mobilizer =
    Revolute "'T RevoluteMobilizer"
  | NonRevolute MobilizerTopology

text \<open>\<^verbatim>\<open>Joint<T>::BluePrint\<close> and \<^verbatim>\<open>Joint<T>::JointImplementation\<close>.\<close>

record 'T BluePrint =
  blueprint_mobilizers :: "'T Mobilizer list"

record 'T JointImplementation =
  mobilizers :: "'T Mobilizer list"

text \<open>
  \<^verbatim>\<open>RevoluteJoint<T>\<close>: the members of the base class \<^verbatim>\<open>Joint<T>\<close> that the header
  reads through its getters, and the member \<^verbatim>\<open>axis_\<close> of line 211, a
  \<^verbatim>\<open>Vector3<double>\<close> whatever \<^verbatim>\<open>T\<close> is (a field here is named \<open>joint_\<close> and
  the member, since the constructor has parameters of the members' names). The two
  pointers are null until the joint is added to a tree and until the tree is
  finalized.
\<close>

record 'T RevoluteJoint =
  joint_name :: string
  joint_frame_on_parent :: "'T Frame"
  joint_frame_on_child :: "'T Frame"
  joint_parent_tree :: "'T MultibodyTree option"
  joint_implementation :: "'T JointImplementation option"
  joint_axis :: Vector3d

text \<open>
  \<^verbatim>\<open>systems::Context<T>\<close> of a multibody tree: the generalized positions and
  velocities of the whole mechanism. \<^verbatim>\<open>MultibodyForces<T>\<close>: its generalized forces.
\<close>

record 'T Context =
  positions :: "'T list"
  velocities :: "'T list"

record 'T MultibodyForces =
  generalized_forces :: "'T list"

subsection \<open>The collaborators of the joint\<close>

text \<open>
  Modelled from the spec: the getters of the base class \<^verbatim>\<open>Joint<T>\<close>
  (\<^verbatim>\<open>get_name\<close>, \<^verbatim>\<open>get_frame_on_parent\<close>, \<^verbatim>\<open>get_frame_on_child\<close>), whose file is
  not among the sources. A joint is identified by a name and references one parent
  frame and one child frame.
\<close>

definition get_name :: "'T RevoluteJoint \<Rightarrow> string" where
  "get_name j = joint_name j"

definition get_frame_on_parent :: "'T RevoluteJoint \<Rightarrow> 'T Frame" where
  "get_frame_on_parent j = joint_frame_on_parent j"

definition get_frame_on_child :: "'T RevoluteJoint \<Rightarrow> 'T Frame" where
  "get_frame_on_child j = joint_frame_on_child j"

text \<open>
  Modelled from the spec: \<^verbatim>\<open>get_parent_tree\<close> and \<^verbatim>\<open>get_implementation\<close> of the base
  class \<^verbatim>\<open>Joint<T>\<close>, whose file is not among the sources. A state- or
  force-dependent operation on a joint that has not been finalized raises the
  unbound-access error.
\<close>

definition get_parent_tree :: "'T RevoluteJoint \<Rightarrow> error + 'T MultibodyTree" where
  "get_parent_tree j =
     (case joint_parent_tree j of None \<Rightarrow> Inl UnboundAccess | Some tree \<Rightarrow> Inr tree)"

definition get_implementation :: "'T RevoluteJoint \<Rightarrow> error + 'T JointImplementation" where
  "get_implementation j =
     (case joint_implementation j of None \<Rightarrow> Inl UnboundAccess | Some impl \<Rightarrow> Inr impl)"

definition get_num_mobilizers :: "'T JointImplementation \<Rightarrow> int" where
  "get_num_mobilizers impl = int (length (mobilizers impl))"

text \<open>
  Modelled from the spec: the constructor of \<^verbatim>\<open>RevoluteMobilizer<T>\<close>, whose file is
  not among the sources. A mobilizer is constructed from frame references and axis
  data; its offsets are assigned when the tree is finalized.
\<close>

definition RevoluteMobilizer :: "'T Frame \<Rightarrow> 'T Frame \<Rightarrow> Vector3d \<Rightarrow> 'T RevoluteMobilizer" where
  "RevoluteMobilizer F M axis =
     \<lparr>inboard_frame = F, outboard_frame = M, axis_F = axis,
      topology = \<lparr>positions_start = 0, velocities_start = 0\<rparr>\<rparr>"

text \<open>
  Modelled from the spec: the accessors of \<^verbatim>\<open>RevoluteMobilizer<T>\<close>, whose file is
  not among the sources. Each is a pure read or write through the state container at
  the offset assigned to the mobilizer, with no validation of the value; a container
  whose size does not match the offset raises the size-mismatch error.
\<close>

definition mobilizer_get_angle :: "'T RevoluteMobilizer \<Rightarrow> 'T Context \<Rightarrow> error + 'T" where
  "mobilizer_get_angle m context =
     (let i = positions_start (topology m)
      in if i < length (positions context) then Inr (positions context ! i)
         else Inl SizeMismatch)"

definition mobilizer_set_angle ::
  "'T RevoluteMobilizer \<Rightarrow> 'T Context \<Rightarrow> 'T \<Rightarrow> error + 'T Context" where
  "mobilizer_set_angle m context angle =
     (let i = positions_start (topology m)
      in if i < length (positions context)
         then Inr (context\<lparr>positions := (positions context)[i := angle]\<rparr>)
         else Inl SizeMismatch)"

definition mobilizer_get_angular_rate :: "'T RevoluteMobilizer \<Rightarrow> 'T Context \<Rightarrow> error + 'T" where
  "mobilizer_get_angular_rate m context =
     (let i = velocities_start (topology m)
      in if i < length (velocities context) then Inr (velocities context ! i)
         else Inl SizeMismatch)"

definition mobilizer_set_angular_rate ::
  "'T RevoluteMobilizer \<Rightarrow> 'T Context \<Rightarrow> 'T \<Rightarrow> error + 'T Context" where
  "mobilizer_set_angular_rate m context theta_dot =
     (let i = velocities_start (topology m)
      in if i < length (velocities context)
         then Inr (context\<lparr>velocities := (velocities context)[i := theta_dot]\<rparr>)
         else Inl SizeMismatch)"

text \<open>
  Modelled from the spec: \<^verbatim>\<open>get_mutable_generalized_forces_from_array\<close> of the
  mobilizer, whose file is not among the sources. The force accumulator is aligned
  with the velocity indexing, and the mobilizer owns one slot of it: the result is the
  block of the array that starts at the velocity offset and has one entry, given as
  its start and its size.
\<close>

definition get_mutable_generalized_forces_from_array ::
  "'T RevoluteMobilizer \<Rightarrow> 'T list \<Rightarrow> error + nat \<times> nat" where
  "get_mutable_generalized_forces_from_array m tau_array =
     (let i = velocities_start (topology m)
      in if i + 1 \<le> length tau_array then Inr (i, 1) else Inl SizeMismatch)"

text \<open>
  Modelled from the spec: \<^verbatim>\<open>MultibodyForces<T>::CheckHasRightSizeForModel\<close>, whose
  file is not among the sources. The accumulator must be sized exactly for the owning
  mechanism, one entry for each generalized velocity.
\<close>

definition CheckHasRightSizeForModel :: "'T MultibodyForces \<Rightarrow> 'T MultibodyTree \<Rightarrow> bool" where
  "CheckHasRightSizeForModel forces model =
     (length (generalized_forces forces) = num_velocities model)"

subsection \<open>The class RevoluteJoint\<close>

text \<open>Lines 60 to 67: the constructor.\<close>

definition RevoluteJoint ::
  "string \<Rightarrow> 'T Frame \<Rightarrow> 'T Frame \<Rightarrow> Vector3d \<Rightarrow> error + 'T RevoluteJoint" where
  "RevoluteJoint name frame_on_parent frame_on_child axis =
     (if isZero axis kEpsilon then Inl DegenerateConstruction
      else Inr \<lparr>joint_name = name, joint_frame_on_parent = frame_on_parent,
                joint_frame_on_child = frame_on_child, joint_parent_tree = None,
                joint_implementation = None, joint_axis = normalized axis\<rparr>)"

text \<open>Lines 73 to 75.\<close>

definition get_revolute_axis :: "'T RevoluteJoint \<Rightarrow> Vector3d" where
  "get_revolute_axis j = joint_axis j"

text \<open>Lines 195 to 203: the mobilizer implementing the joint.\<close>

definition get_mobilizer :: "'T RevoluteJoint \<Rightarrow> error + 'T RevoluteMobilizer" where
  "get_mobilizer j =
     (case get_implementation j of
        Inl e \<Rightarrow> Inl e
      | Inr impl \<Rightarrow>
          if get_num_mobilizers impl \<noteq> 1 then Inl NotOneMobilizer
          else (case mobilizers impl ! 0 of
                  Revolute mobilizer \<Rightarrow> Inr mobilizer
                | NonRevolute t \<Rightarrow> Inl NotRevoluteMobilizer))"

text \<open>Lines 87 to 127: the context-dependent accessors.\<close>

definition get_angle :: "'T RevoluteJoint \<Rightarrow> 'T Context \<Rightarrow> error + 'T" where
  "get_angle j context =
     (case get_mobilizer j of
        Inl e \<Rightarrow> Inl e
      | Inr mobilizer \<Rightarrow> mobilizer_get_angle mobilizer context)"

definition set_angle :: "'T RevoluteJoint \<Rightarrow> 'T Context \<Rightarrow> 'T \<Rightarrow> error + 'T Context" where
  "set_angle j context angle =
     (case get_mobilizer j of
        Inl e \<Rightarrow> Inl e
      | Inr mobilizer \<Rightarrow> mobilizer_set_angle mobilizer context angle)"

definition get_angular_rate :: "'T RevoluteJoint \<Rightarrow> 'T Context \<Rightarrow> error + 'T" where
  "get_angular_rate j context =
     (case get_mobilizer j of
        Inl e \<Rightarrow> Inl e
      | Inr mobilizer \<Rightarrow> mobilizer_get_angular_rate mobilizer context)"

definition set_angular_rate :: "'T RevoluteJoint \<Rightarrow> 'T Context \<Rightarrow> 'T \<Rightarrow> error + 'T Context" where
  "set_angular_rate j context angle =
     (case get_mobilizer j of
        Inl e \<Rightarrow> Inl e
      | Inr mobilizer \<Rightarrow> mobilizer_set_angular_rate mobilizer context angle)"

text \<open>
  Lines 150 to 162: the override of the per-dof force injection. The context is not
  read. \<^verbatim>\<open>tau_mob(joint_dof) += joint_tau\<close> writes entry \<open>joint_dof\<close> of the block.
\<close>

definition DoAddInOneForce ::
  "'T::plus RevoluteJoint \<Rightarrow> 'T Context \<Rightarrow> int \<Rightarrow> 'T \<Rightarrow> 'T MultibodyForces
     \<Rightarrow> error + 'T MultibodyForces" where
  "DoAddInOneForce j context joint_dof joint_tau forces =
     (if joint_dof \<noteq> 0 then Inl DofOutOfRange
      else (case get_mobilizer j of
              Inl e \<Rightarrow> Inl e
            | Inr mobilizer \<Rightarrow>
                (case get_mutable_generalized_forces_from_array mobilizer
                        (generalized_forces forces) of
                   Inl e \<Rightarrow> Inl e
                 | Inr (start, n) \<Rightarrow>
                     let k = start + nat joint_dof;
                         tau = generalized_forces forces
                     in Inr (forces\<lparr>generalized_forces := tau[k := tau ! k + joint_tau]\<rparr>))))"

text \<open>Lines 164 to 166.\<close>

definition do_get_num_dofs :: "'T RevoluteJoint \<Rightarrow> int" where
  "do_get_num_dofs j = 1"

text \<open>
  Modelled from the spec: \<^verbatim>\<open>Joint<T>::AddInOneForce\<close>, the public entry point of the
  base class that calls the override, whose file is not among the sources. The
  override is called with arguments already checked to be valid (the comment of
  lines 148 and 149): a non-null accumulator, a dof index of the joint, and an
  accumulator sized for the owning mechanism.
\<close>

definition AddInOneForce ::
  "'T::plus RevoluteJoint \<Rightarrow> 'T Context \<Rightarrow> int \<Rightarrow> 'T \<Rightarrow> 'T MultibodyForces option
     \<Rightarrow> error + 'T MultibodyForces" where
  "AddInOneForce j context joint_dof joint_tau forces_ptr =
     (case forces_ptr of
        None \<Rightarrow> Inl NullForces
      | Some forces \<Rightarrow>
          if \<not> (0 \<le> joint_dof \<and> joint_dof < do_get_num_dofs j) then Inl DofOutOfRange
          else (case get_parent_tree j of
                  Inl e \<Rightarrow> Inl e
                | Inr tree \<Rightarrow>
                    if \<not> CheckHasRightSizeForModel forces tree then Inl SizeMismatch
                    else DoAddInOneForce j context joint_dof joint_tau forces))"

text \<open>Lines 138 to 145.\<close>

definition AddInTorque ::
  "'T::plus RevoluteJoint \<Rightarrow> 'T Context \<Rightarrow> 'T \<Rightarrow> 'T MultibodyForces option
     \<Rightarrow> error + 'T MultibodyForces" where
  "AddInTorque j context torque forces_ptr =
     (case forces_ptr of
        None \<Rightarrow> Inl NullForces
      | Some forces \<Rightarrow>
          (case get_parent_tree j of
             Inl e \<Rightarrow> Inl e
           | Inr tree \<Rightarrow>
               if \<not> CheckHasRightSizeForModel forces tree then Inl SizeMismatch
               else AddInOneForce j context 0 torque forces_ptr))"

text \<open>
  Lines 169 to 176: a fresh blueprint, whose list of mobilizers is empty, with one
  revolute mobilizer pushed at its back.
\<close>

definition MakeImplementationBlueprint :: "'T RevoluteJoint \<Rightarrow> 'T BluePrint" where
  "MakeImplementationBlueprint j =
     \<lparr>blueprint_mobilizers =
        [] @ [Revolute (RevoluteMobilizer (get_frame_on_parent j) (get_frame_on_child j)
                          (joint_axis j))]\<rparr>"

text \<open>
  Modelled from the spec: frame lookup by name, which the owning tree exposes and
  whose file is not among the sources.
\<close>

definition GetFrameByName :: "'T MultibodyTree \<Rightarrow> string \<Rightarrow> 'T Frame option" where
  "GetFrameByName tree n = find (\<lambda>f. frame_name f = n) (frames tree)"

text \<open>
  Modelled from the spec: \<^verbatim>\<open>TemplatedDoCloneToScalar\<close>, declared at lines 206 to
  208 and defined in a file that is not among the sources. Given a tree already
  cloned to the target scalar, it produces a joint of the same kinematic type over
  that scalar, with the frame references remapped by name into the frames of the
  cloned tree, and the name and the axis data preserved. It fails with the
  missing-frame error if the tree lacks a frame of the name of either endpoint. The
  result is unbound.
\<close>

definition TemplatedDoCloneToScalar ::
  "'T RevoluteJoint \<Rightarrow> 'ToScalar MultibodyTree \<Rightarrow> error + 'ToScalar RevoluteJoint" where
  "TemplatedDoCloneToScalar j tree_clone =
     (case GetFrameByName tree_clone (frame_name (get_frame_on_parent j)) of
        None \<Rightarrow> Inl MissingFrame
      | Some frame_on_parent_body_clone \<Rightarrow>
          (case GetFrameByName tree_clone (frame_name (get_frame_on_child j)) of
             None \<Rightarrow> Inl MissingFrame
           | Some frame_on_child_body_clone \<Rightarrow>
               Inr \<lparr>joint_name = get_name j,
                    joint_frame_on_parent = frame_on_parent_body_clone,
                    joint_frame_on_child = frame_on_child_body_clone,
                    joint_parent_tree = None, joint_implementation = None,
                    joint_axis = get_revolute_axis j\<rparr>))"

text \<open>
  Lines 178 to 182: the two overrides, one for each target scalar, which the helper
  implements.
\<close>

definition DoCloneToScalar ::
  "'T RevoluteJoint \<Rightarrow> 'ToScalar MultibodyTree \<Rightarrow> error + 'ToScalar RevoluteJoint" where
  "DoCloneToScalar j tree_clone = TemplatedDoCloneToScalar j tree_clone"

subsection \<open>The two states of a joint\<close>

text \<open>
  A joint is \<open>Unbound\<close> when constructed and \<open>Bound\<close> once the finalized tree has
  given it its implementation.
\<close>

datatype JointState = Unbound | Bound

definition joint_state :: "'T RevoluteJoint \<Rightarrow> JointState" where
  "joint_state j = (case joint_implementation j of None \<Rightarrow> Unbound | Some impl \<Rightarrow> Bound)"

subsection \<open>A mechanism of two joints\<close>

text \<open>
  A tree with two one-dof joints, as it is after it has been finalized: the first
  mobilizer owns slot 0 of the positions, the velocities and the forces, and the
  mobilizer of the joint ``knee'' owns slot 1.
\<close>

definition thigh :: "'T Frame" where
  "thigh = \<lparr>frame_name = ''thigh''\<rparr>"

definition shin :: "'T Frame" where
  "shin = \<lparr>frame_name = ''shin''\<rparr>"

definition leg :: "'T MultibodyTree" where
  "leg = \<lparr>frames = [thigh, shin], num_positions = 2, num_velocities = 2\<rparr>"

definition knee_mobilizer :: "'T RevoluteMobilizer" where
  "knee_mobilizer =
     (RevoluteMobilizer thigh shin (0, 0, 1))
       \<lparr>topology := \<lparr>positions_start = 1, velocities_start = 1\<rparr>\<rparr>"

definition knee_unbound :: "'T RevoluteJoint" where
  "knee_unbound =
     \<lparr>joint_name = ''knee'', joint_frame_on_parent = thigh, joint_frame_on_child = shin,
      joint_parent_tree = Some leg, joint_implementation = None, joint_axis = (0, 0, 1)\<rparr>"

definition knee :: "'T RevoluteJoint" where
  "knee = knee_unbound\<lparr>joint_implementation := Some \<lparr>mobilizers = [Revolute knee_mobilizer]\<rparr>\<rparr>"

section \<open>Properties\<close>

subsection \<open>Facts shared by the proofs\<close>

lemma get_mobilizer_unbound:
  "joint_state j = Unbound \<Longrightarrow> get_mobilizer j = Inl UnboundAccess"
  by (simp add: joint_state_def get_mobilizer_def get_implementation_def split: option.splits)

lemma get_mobilizer_not_degenerate: "get_mobilizer j \<noteq> Inl DegenerateConstruction"
  by (simp add: get_mobilizer_def get_implementation_def split: option.splits Mobilizer.splits)

text \<open>
  What \<open>AddInTorque\<close> returns for a joint with its mobilizer, in a tree, given an
  accumulator of the size of the tree in which the mobilizer has its slot.
\<close>

lemma AddInTorque_bound:
  fixes torque :: "'T::plus"
  assumes "get_mobilizer j = Inr m" and "joint_parent_tree j = Some tree"
    and "length (generalized_forces forces) = num_velocities tree"
    and "velocities_start (topology m) < num_velocities tree"
  shows "AddInTorque j ctx torque (Some forces) =
           Inr (forces\<lparr>generalized_forces :=
                  (generalized_forces forces)
                    [velocities_start (topology m) :=
                       generalized_forces forces ! velocities_start (topology m) + torque]\<rparr>)"
  using assms
  by (simp add: AddInTorque_def AddInOneForce_def DoAddInOneForce_def get_parent_tree_def
      CheckHasRightSizeForModel_def do_get_num_dofs_def
      get_mutable_generalized_forces_from_array_def Let_def)

text \<open>The mechanism of two joints.\<close>

lemma get_mobilizer_knee: "get_mobilizer (knee :: 'T RevoluteJoint) = Inr knee_mobilizer"
  by (simp add: get_mobilizer_def get_implementation_def get_num_mobilizers_def knee_def
      knee_unbound_def)

lemma knee_parent_tree: "joint_parent_tree (knee :: 'T RevoluteJoint) = Some leg"
  by (simp add: knee_def knee_unbound_def)

lemma knee_unbound_parent_tree: "joint_parent_tree (knee_unbound :: 'T RevoluteJoint) = Some leg"
  by (simp add: knee_unbound_def)

lemma knee_unbound_state: "joint_state (knee_unbound :: 'T RevoluteJoint) = Unbound"
  by (simp add: joint_state_def knee_unbound_def)

lemma knee_mobilizer_topology:
  "topology (knee_mobilizer :: 'T RevoluteMobilizer) =
     \<lparr>positions_start = 1, velocities_start = 1\<rparr>"
  by (simp add: knee_mobilizer_def RevoluteMobilizer_def)

lemma num_velocities_leg: "num_velocities (leg :: 'T MultibodyTree) = 2"
  by (simp add: leg_def)

lemma leg_frames:
  "GetFrameByName (leg :: 'T MultibodyTree) ''thigh'' = Some thigh"
  "GetFrameByName (leg :: 'T MultibodyTree) ''shin'' = Some shin"
  by (simp_all add: GetFrameByName_def leg_def thigh_def shin_def)

lemma knee_frames:
  "frame_name (get_frame_on_parent (knee :: 'T RevoluteJoint)) = ''thigh''"
  "frame_name (get_frame_on_child (knee :: 'T RevoluteJoint)) = ''shin''"
  by (simp_all add: get_frame_on_parent_def get_frame_on_child_def knee_def knee_unbound_def
      thigh_def shin_def)

lemma normalized_example: "normalized (0, 0, 2) = (0, 0, 1)"
  by (simp add: normalized_def squaredNorm_double_def)

lemma knee_constructed:
  "RevoluteJoint ''knee'' thigh shin (0, 0, 2) = Inr (knee_unbound\<lparr>joint_parent_tree := None\<rparr>)"
  by (simp add: RevoluteJoint_def isZero_def kEpsilon_def normalized_example knee_unbound_def)

text \<open>
  The constructor's test and the magnitude: no coefficient exceeds the magnitude, so a
  vector of magnitude below the precision passes Eigen's coefficient-wise test.
\<close>

lemma kEpsilon_pos: "0 < kEpsilon"
  by (simp add: kEpsilon_def)

lemma abs_le_norm3:
  "\<bar>x\<bar> \<le> norm3 (x, y, z)" "\<bar>y\<bar> \<le> norm3 (x, y, z)" "\<bar>z\<bar> \<le> norm3 (x, y, z)"
proof -
  have "sqrt (x * x) \<le> sqrt (x * x + y * y + z * z)"
    by (rule real_sqrt_le_mono) simp
  then show "\<bar>x\<bar> \<le> norm3 (x, y, z)" by (simp add: norm3_def squaredNorm_def)
  have "sqrt (y * y) \<le> sqrt (x * x + y * y + z * z)"
    by (rule real_sqrt_le_mono) simp
  then show "\<bar>y\<bar> \<le> norm3 (x, y, z)" by (simp add: norm3_def squaredNorm_def)
  have "sqrt (z * z) \<le> sqrt (x * x + y * y + z * z)"
    by (rule real_sqrt_le_mono) simp
  then show "\<bar>z\<bar> \<le> norm3 (x, y, z)" by (simp add: norm3_def squaredNorm_def)
qed

lemma isZero_if_norm3_less: "norm3 v < prec \<Longrightarrow> isZero v prec"
proof -
  assume a: "norm3 v < prec"
  obtain x y z where v: "v = (x, y, z)" by (cases v) auto
  from a abs_le_norm3(1) [of x y z] abs_le_norm3(2) [of y x z] abs_le_norm3(3) [of z x y]
  show ?thesis
    unfolding v isZero_def by simp
qed

lemma accessors_not_degenerate:
  "get_angle j ctx \<noteq> Inl DegenerateConstruction"
  "set_angle j ctx a \<noteq> Inl DegenerateConstruction"
  "get_angular_rate j ctx \<noteq> Inl DegenerateConstruction"
  "set_angular_rate j ctx a \<noteq> Inl DegenerateConstruction"
  using get_mobilizer_not_degenerate [of j]
  by (auto simp: get_angle_def set_angle_def get_angular_rate_def set_angular_rate_def
      mobilizer_get_angle_def mobilizer_set_angle_def mobilizer_get_angular_rate_def
      mobilizer_set_angular_rate_def Let_def split: sum.splits)

lemma AddInTorque_not_degenerate:
  "AddInTorque j ctx torque forces_ptr \<noteq> Inl DegenerateConstruction"
  using get_mobilizer_not_degenerate [of j]
  by (auto simp: AddInTorque_def AddInOneForce_def DoAddInOneForce_def get_parent_tree_def
      get_mutable_generalized_forces_from_array_def Let_def
      split: option.splits sum.splits if_splits)

subsection \<open>The angle round-trips through the context\<close>

text \<open>
  Claim C1. For a bound joint (one whose implementation holds its revolute mobilizer)
  and a context of its tree (one that has the position slot of the mobilizer),
  \<open>set_angle\<close> returns, and whenever it returns, \<open>get_angle\<close> on the context it
  wrote returns exactly the angle that was set, whatever the angle is. The velocities
  and the size of the context are as before.
\<close>

theorem set_angle_get_angle_roundtrip:
  assumes "get_mobilizer j = Inr m"
  shows "(positions_start (topology m) < length (positions ctx) \<longrightarrow>
            (\<exists>ctx'. set_angle j ctx \<theta> = Inr ctx')) \<and>
         (\<forall>ctx'. set_angle j ctx \<theta> = Inr ctx' \<longrightarrow>
            get_angle j ctx' = Inr \<theta> \<and>
            velocities ctx' = velocities ctx \<and>
            length (positions ctx') = length (positions ctx))"
  using assms
  by (auto simp: set_angle_def get_angle_def mobilizer_set_angle_def mobilizer_get_angle_def
      Let_def split: if_splits)

text \<open>
  Witness of C1: the joint ``knee'' of the mechanism of two joints, the angle 3/2 set
  in a context of zeros.
\<close>

theorem set_angle_get_angle_roundtrip_witness:
  "get_mobilizer (knee :: real RevoluteJoint) = Inr knee_mobilizer \<and>
   set_angle (knee :: real RevoluteJoint) \<lparr>positions = [0, 0], velocities = [0, 0]\<rparr> (3 / 2)
     = Inr \<lparr>positions = [0, 3 / 2], velocities = [0, 0]\<rparr> \<and>
   get_angle (knee :: real RevoluteJoint) \<lparr>positions = [0, 3 / 2], velocities = [0, 0]\<rparr>
     = Inr (3 / 2)"
proof -
  have s: "set_angle (knee :: real RevoluteJoint)
             \<lparr>positions = [0, 0], velocities = [0, 0]\<rparr> (3 / 2)
           = Inr \<lparr>positions = [0, 3 / 2], velocities = [0, 0]\<rparr>"
    by (simp add: set_angle_def get_mobilizer_knee mobilizer_set_angle_def
        knee_mobilizer_topology)
  from set_angle_get_angle_roundtrip
         [OF get_mobilizer_knee, of "\<lparr>positions = [0, 0], velocities = [0, 0]\<rparr>"
            "3 / 2 :: real"] s
  show ?thesis by (simp add: get_mobilizer_knee)
qed

subsection \<open>The constructor refuses a degenerate axis\<close>

text \<open>
  Counterexample of C2 as stated. The axis with three coefficients equal to the machine
  epsilon has a magnitude above the machine epsilon (it is \<open>sqrt 3\<close> times it), and
  the constructor refuses it: the test of line 65 is Eigen's \<^verbatim>\<open>isZero\<close>, which
  compares each coefficient with the precision, not the magnitude.
\<close>

theorem constructor_rejects_axis_above_epsilon:
  "kEpsilon < norm3 (kEpsilon, kEpsilon, kEpsilon) \<and>
   (RevoluteJoint ''knee'' thigh shin (kEpsilon, kEpsilon, kEpsilon)
      :: error + real RevoluteJoint) = Inl DegenerateConstruction"
proof -
  have "sqrt (kEpsilon * kEpsilon)
      < sqrt (kEpsilon * kEpsilon + kEpsilon * kEpsilon + kEpsilon * kEpsilon)"
    using kEpsilon_pos by (intro real_sqrt_less_mono) simp
  then have "kEpsilon < norm3 (kEpsilon, kEpsilon, kEpsilon)"
    using kEpsilon_pos by (simp add: norm3_def squaredNorm_def)
  then show ?thesis
    using kEpsilon_pos by (simp add: RevoluteJoint_def isZero_def)
qed

text \<open>
  Claim C2, amended. The constructor fails with the degenerate-construction error
  exactly when every coefficient of the axis is at most the machine epsilon in absolute
  value. Every axis of magnitude below the machine epsilon is such an axis, the zero
  vector in particular. With any other axis the constructor returns a joint, which is
  unbound. The failure belongs to the constructor alone: no accessor and no force
  injection of a joint ever fails with it.
\<close>

theorem constructor_degenerate_axis:
  fixes torque :: "'T::plus" and j :: "'T RevoluteJoint"
  shows
  "(RevoluteJoint name frame_on_parent frame_on_child axis
      = (Inl DegenerateConstruction :: error + 'T RevoluteJoint)
      \<longleftrightarrow> (case axis of (x, y, z) \<Rightarrow>
             \<bar>x\<bar> \<le> kEpsilon \<and> \<bar>y\<bar> \<le> kEpsilon \<and> \<bar>z\<bar> \<le> kEpsilon)) \<and>
   (norm3 axis < kEpsilon \<longrightarrow>
      RevoluteJoint name frame_on_parent frame_on_child axis
        = (Inl DegenerateConstruction :: error + 'T RevoluteJoint)) \<and>
   RevoluteJoint name frame_on_parent frame_on_child (0, 0, 0)
     = (Inl DegenerateConstruction :: error + 'T RevoluteJoint) \<and>
   (RevoluteJoint name frame_on_parent frame_on_child axis
      \<noteq> (Inl DegenerateConstruction :: error + 'T RevoluteJoint) \<longrightarrow>
      (\<exists>j' :: 'T RevoluteJoint.
         RevoluteJoint name frame_on_parent frame_on_child axis = Inr j' \<and>
         joint_state j' = Unbound)) \<and>
   get_angle j ctx \<noteq> Inl DegenerateConstruction \<and>
   set_angle j ctx a \<noteq> Inl DegenerateConstruction \<and>
   get_angular_rate j ctx \<noteq> Inl DegenerateConstruction \<and>
   set_angular_rate j ctx a \<noteq> Inl DegenerateConstruction \<and>
   AddInTorque j ctx torque forces_ptr \<noteq> Inl DegenerateConstruction"
proof -
  let ?r = "RevoluteJoint name frame_on_parent frame_on_child axis :: error + 'T RevoluteJoint"
  have a: "norm3 axis < kEpsilon \<longrightarrow> isZero axis kEpsilon"
    by (simp add: isZero_if_norm3_less)
  have b: "0 \<le> kEpsilon" by (simp add: kEpsilon_def)
  have ctor: "(?r = Inl DegenerateConstruction
      \<longleftrightarrow> (case axis of (x, y, z) \<Rightarrow>
             \<bar>x\<bar> \<le> kEpsilon \<and> \<bar>y\<bar> \<le> kEpsilon \<and> \<bar>z\<bar> \<le> kEpsilon)) \<and>
   (norm3 axis < kEpsilon \<longrightarrow> ?r = Inl DegenerateConstruction) \<and>
   RevoluteJoint name frame_on_parent frame_on_child (0, 0, 0)
     = (Inl DegenerateConstruction :: error + 'T RevoluteJoint) \<and>
   (?r \<noteq> Inl DegenerateConstruction \<longrightarrow>
      (\<exists>j' :: 'T RevoluteJoint. ?r = Inr j' \<and> joint_state j' = Unbound))"
    using a b
    by (auto simp: RevoluteJoint_def isZero_def joint_state_def split: prod.splits)
  with accessors_not_degenerate(1) [of j ctx] accessors_not_degenerate(2) [of j ctx a]
    accessors_not_degenerate(3) [of j ctx] accessors_not_degenerate(4) [of j ctx a]
    AddInTorque_not_degenerate [of j ctx torque forces_ptr]
  show ?thesis by simp
qed

text \<open>
  Witness of C2: the axis \<open>(2^-53, 0, 0)\<close>, of magnitude below the machine epsilon,
  is refused; the axis \<open>(0, 0, 2)\<close> gives the unbound joint ``knee''.
\<close>

theorem constructor_degenerate_axis_witness:
  "norm3 (1 / 2 ^ 53, 0, 0) < kEpsilon \<and>
   (RevoluteJoint ''knee'' thigh shin (1 / 2 ^ 53, 0, 0) :: error + real RevoluteJoint)
     = Inl DegenerateConstruction \<and>
   (RevoluteJoint ''knee'' thigh shin (0, 0, 2) :: error + real RevoluteJoint)
     = Inr (knee_unbound\<lparr>joint_parent_tree := None\<rparr>) \<and>
   joint_state (knee_unbound\<lparr>joint_parent_tree := None\<rparr> :: real RevoluteJoint) = Unbound"
proof -
  have small: "norm3 (1 / 2 ^ 53, 0, 0) < kEpsilon"
    by (simp add: norm3_def squaredNorm_def kEpsilon_def real_sqrt_divide)
  have ok: "(RevoluteJoint ''knee'' thigh shin (0, 0, 2) :: error + real RevoluteJoint)
      = Inr (knee_unbound\<lparr>joint_parent_tree := None\<rparr>)"
    by (rule knee_constructed)
  let ?ctx = "\<lparr>positions = [0, 0], velocities = [0, 0]\<rparr> :: real Context"
  note small_axis = constructor_degenerate_axis
         [where name = "''knee''" and frame_on_parent = "thigh :: real Frame"
            and frame_on_child = shin and axis = "(1 / 2 ^ 53, 0, 0)" and j = knee
            and torque = 0 and ctx = ?ctx and a = 0 and forces_ptr = None]
  note good_axis = constructor_degenerate_axis
         [where name = "''knee''" and frame_on_parent = "thigh :: real Frame"
            and frame_on_child = shin and axis = "(0, 0, 2)" and j = knee
            and torque = 0 and ctx = ?ctx and a = 0 and forces_ptr = None]
  have bad: "(RevoluteJoint ''knee'' thigh shin (1 / 2 ^ 53, 0, 0) :: error + real RevoluteJoint)
      = Inl DegenerateConstruction"
    by (rule mp [OF small_axis [THEN conjunct2, THEN conjunct1] small])
  have "(RevoluteJoint ''knee'' thigh shin (0, 0, 2) :: error + real RevoluteJoint)
      \<noteq> Inl DegenerateConstruction"
    by (simp add: ok)
  from mp [OF good_axis [THEN conjunct2, THEN conjunct2, THEN conjunct2, THEN conjunct1] this]
  have "joint_state (knee_unbound\<lparr>joint_parent_tree := None\<rparr> :: real RevoluteJoint) = Unbound"
    by (simp add: ok)
  with small bad ok show ?thesis by simp
qed

subsection \<open>Torques accumulate in the slot of the joint\<close>

text \<open>
  Claim C3. For a bound joint in a tree, with the slot of its mobilizer among the
  velocities of the tree, and an accumulator sized for the tree: two calls of
  \<open>AddInTorque\<close> with \<open>f1\<close> and \<open>f2\<close> both return, the slot of the joint then holds
  what it held plus \<open>f1\<close> plus \<open>f2\<close> (the calls add, they do not overwrite), which is
  \<open>f1 + f2\<close> when the accumulator was all zero, and every other slot holds what it
  held. The scalar is any type with an addition and a zero that is neutral.
\<close>

theorem AddInTorque_accumulates:
  fixes f1 f2 :: "'T::monoid_add"
  assumes "get_mobilizer j = Inr m" and "joint_parent_tree j = Some tree"
    and "velocities_start (topology m) < num_velocities tree"
    and "length (generalized_forces forces) = num_velocities tree"
  shows "\<exists>forces1 forces2.
           AddInTorque j ctx1 f1 (Some forces) = Inr forces1 \<and>
           AddInTorque j ctx2 f2 (Some forces1) = Inr forces2 \<and>
           length (generalized_forces forces2) = num_velocities tree \<and>
           generalized_forces forces2 ! velocities_start (topology m) =
             generalized_forces forces ! velocities_start (topology m) + f1 + f2 \<and>
           (generalized_forces forces = replicate (num_velocities tree) 0 \<longrightarrow>
              generalized_forces forces2 ! velocities_start (topology m) = f1 + f2) \<and>
           (\<forall>i. i \<noteq> velocities_start (topology m) \<longrightarrow>
              generalized_forces forces2 ! i = generalized_forces forces ! i)"
proof -
  let ?k = "velocities_start (topology m)"
  let ?tau = "generalized_forces forces"
  let ?forces1 = "forces\<lparr>generalized_forces := ?tau[?k := ?tau ! ?k + f1]\<rparr>"
  let ?tau1 = "generalized_forces ?forces1"
  let ?forces2 = "?forces1\<lparr>generalized_forces := ?tau1[?k := ?tau1 ! ?k + f2]\<rparr>"
  have first: "AddInTorque j ctx1 f1 (Some forces) = Inr ?forces1"
    by (rule AddInTorque_bound [OF assms(1) assms(2) assms(4) assms(3)])
  have len1: "length (generalized_forces ?forces1) = num_velocities tree"
    using assms(4) by simp
  have second: "AddInTorque j ctx2 f2 (Some ?forces1) = Inr ?forces2"
    by (rule AddInTorque_bound [OF assms(1) assms(2) len1 assms(3)])
  have len2: "length (generalized_forces ?forces2) = num_velocities tree"
    using assms(4) by simp
  have slot: "generalized_forces ?forces2 ! ?k = ?tau ! ?k + f1 + f2"
    using assms(3,4) by simp
  have zero: "?tau = replicate (num_velocities tree) 0 \<longrightarrow>
      generalized_forces ?forces2 ! ?k = f1 + f2"
    using assms(3,4) by simp
  have others: "\<forall>i. i \<noteq> ?k \<longrightarrow> generalized_forces ?forces2 ! i = ?tau ! i"
    by simp
  from first second len2 slot zero others show ?thesis by blast
qed

text \<open>
  Witness of C3: the torques 2 and 3 on the joint ``knee'', whose slot is the second of
  two; the first slot belongs to the other joint and stays 0.
\<close>

theorem AddInTorque_accumulates_witness:
  "AddInTorque (knee :: real RevoluteJoint) \<lparr>positions = [0, 0], velocities = [0, 0]\<rparr> 2
     (Some \<lparr>generalized_forces = [0, 0]\<rparr>) = Inr \<lparr>generalized_forces = [0, 2]\<rparr> \<and>
   AddInTorque (knee :: real RevoluteJoint) \<lparr>positions = [0, 0], velocities = [0, 0]\<rparr> 3
     (Some \<lparr>generalized_forces = [0, 2]\<rparr>) = Inr \<lparr>generalized_forces = [0, 5]\<rparr>"
proof -
  let ?ctx = "\<lparr>positions = [0, 0], velocities = [0, 0]\<rparr> :: real Context"
  let ?forces = "\<lparr>generalized_forces = [0, 0]\<rparr> :: real MultibodyForces"
  have slot: "velocities_start (topology (knee_mobilizer :: real RevoluteMobilizer))
      < num_velocities (leg :: real MultibodyTree)"
    by (simp add: knee_mobilizer_topology num_velocities_leg)
  have len: "length (generalized_forces ?forces) = num_velocities (leg :: real MultibodyTree)"
    by (simp add: num_velocities_leg)
  from AddInTorque_accumulates
         [OF get_mobilizer_knee knee_parent_tree slot len, of ?ctx 2 ?ctx 3]
  obtain forces1 forces2 where
    f1: "AddInTorque knee ?ctx 2 (Some ?forces) = Inr forces1" and
    f2: "AddInTorque knee ?ctx 3 (Some forces1) = Inr forces2" and
    l2: "length (generalized_forces forces2) = num_velocities (leg :: real MultibodyTree)" and
    k: "generalized_forces forces2 !
          velocities_start (topology (knee_mobilizer :: real RevoluteMobilizer)) = 2 + 3" and
    o: "generalized_forces forces2 ! 0 = 0"
    by (auto simp: knee_mobilizer_topology)
  have e1: "AddInTorque knee ?ctx 2 (Some ?forces) = Inr \<lparr>generalized_forces = [0, 2]\<rparr>"
    by (simp add: AddInTorque_bound [OF get_mobilizer_knee knee_parent_tree len slot]
        knee_mobilizer_topology)
  with f1 have forces1: "forces1 = \<lparr>generalized_forces = [0, 2]\<rparr>" by simp
  obtain a b where ab: "generalized_forces forces2 = [a, b]"
    using l2 by (auto simp: num_velocities_leg length_Suc_conv numeral_2_eq_2)
  with k o have "generalized_forces forces2 = [0, 5]"
    by (simp add: knee_mobilizer_topology)
  then have "forces2 = \<lparr>generalized_forces = [0, 5]\<rparr>" by (cases forces2) simp
  with f1 f2 forces1 show ?thesis by simp
qed

subsection \<open>Calls on an unbound joint\<close>

text \<open>
  Counterexample of C4 as stated. The joint ``knee'' before its tree is finalized, and
  an accumulator of one entry where the tree has two velocities: \<open>AddInTorque\<close>
  fails at the size demand of line 143, which comes before any access to the
  mobilizer, so the failure is the size mismatch and not the unbound access.
\<close>

theorem unbound_AddInTorque_size_first:
  "joint_state (knee_unbound :: real RevoluteJoint) = Unbound \<and>
   AddInTorque (knee_unbound :: real RevoluteJoint)
     \<lparr>positions = [0, 0], velocities = [0, 0]\<rparr> 1
     (Some \<lparr>generalized_forces = [0]\<rparr>) = Inl SizeMismatch \<and>
   AddInTorque (knee_unbound :: real RevoluteJoint)
     \<lparr>positions = [0, 0], velocities = [0, 0]\<rparr> 1
     (Some \<lparr>generalized_forces = [0]\<rparr>) \<noteq> Inl UnboundAccess"
  by (simp add: knee_unbound_state AddInTorque_def get_parent_tree_def
      knee_unbound_parent_tree CheckHasRightSizeForModel_def num_velocities_leg)

text \<open>
  Claim C4, amended. For an unbound joint, each of \<open>get_angle\<close>, \<open>set_angle\<close>,
  \<open>get_angular_rate\<close> and \<open>set_angular_rate\<close> fails with the unbound-access error,
  and \<open>AddInTorque\<close> fails too: with the failure of the null accumulator if the
  accumulator is null, with the size mismatch if the joint is in a tree and the
  accumulator is not sized for it, and with the unbound-access error otherwise. Every
  one of these calls fails, so none returns a context or an accumulator it wrote.
\<close>

theorem unbound_joint_calls_fail:
  fixes torque :: "'T::plus"
  assumes "joint_state j = Unbound"
  shows "get_angle j ctx = Inl UnboundAccess \<and>
         set_angle j ctx angle = Inl UnboundAccess \<and>
         get_angular_rate j ctx = Inl UnboundAccess \<and>
         set_angular_rate j ctx angle = Inl UnboundAccess \<and>
         AddInTorque j ctx torque forces_ptr =
           Inl (case forces_ptr of
                  None \<Rightarrow> NullForces
                | Some forces \<Rightarrow>
                    (case joint_parent_tree j of
                       None \<Rightarrow> UnboundAccess
                     | Some tree \<Rightarrow>
                         if CheckHasRightSizeForModel forces tree then UnboundAccess
                         else SizeMismatch))"
  using get_mobilizer_unbound [OF assms]
  by (simp add: get_angle_def set_angle_def get_angular_rate_def set_angular_rate_def
      AddInTorque_def AddInOneForce_def DoAddInOneForce_def get_parent_tree_def
      do_get_num_dofs_def split: option.splits)

text \<open>
  Witness of C4: the unbound joint ``knee'', a context of its tree and an accumulator
  sized for its tree.
\<close>

theorem unbound_joint_calls_fail_witness:
  "joint_state (knee_unbound :: real RevoluteJoint) = Unbound \<and>
   get_angle (knee_unbound :: real RevoluteJoint)
     \<lparr>positions = [0, 0], velocities = [0, 0]\<rparr> = Inl UnboundAccess \<and>
   set_angle (knee_unbound :: real RevoluteJoint)
     \<lparr>positions = [0, 0], velocities = [0, 0]\<rparr> 1 = Inl UnboundAccess \<and>
   get_angular_rate (knee_unbound :: real RevoluteJoint)
     \<lparr>positions = [0, 0], velocities = [0, 0]\<rparr> = Inl UnboundAccess \<and>
   set_angular_rate (knee_unbound :: real RevoluteJoint)
     \<lparr>positions = [0, 0], velocities = [0, 0]\<rparr> 1 = Inl UnboundAccess \<and>
   AddInTorque (knee_unbound :: real RevoluteJoint)
     \<lparr>positions = [0, 0], velocities = [0, 0]\<rparr> 1
     (Some \<lparr>generalized_forces = [0, 0]\<rparr>) = Inl UnboundAccess"
  using unbound_joint_calls_fail
          [OF knee_unbound_state,
           of "\<lparr>positions = [0, 0], velocities = [0, 0]\<rparr> :: real Context" 1 1
              "Some \<lparr>generalized_forces = [0, 0]\<rparr>"]
  by (simp add: knee_unbound_state knee_unbound_parent_tree CheckHasRightSizeForModel_def
      num_velocities_leg)

subsection \<open>Conversion to another scalar\<close>

text \<open>
  Claim C5. Cloning a joint over scalar \<open>'T\<close> into a tree over scalar \<open>'ToScalar\<close>:
  if the tree has a frame of the name of each endpoint, the clone exists, has the same
  name, the same number of degrees of freedom and the same axis, refers to the frames
  found in the target tree, and is unbound, whatever the state of the source; if the
  tree lacks a frame of the name of either endpoint, cloning fails with the
  missing-frame error.
\<close>

theorem DoCloneToScalar_preserves:
  "(\<forall>F M. GetFrameByName tree_clone (frame_name (get_frame_on_parent j)) = Some F \<and>
          GetFrameByName tree_clone (frame_name (get_frame_on_child j)) = Some M \<longrightarrow>
      (\<exists>j'. DoCloneToScalar j tree_clone = Inr j' \<and>
            get_name j' = get_name j \<and>
            do_get_num_dofs j' = do_get_num_dofs j \<and>
            get_revolute_axis j' = get_revolute_axis j \<and>
            get_frame_on_parent j' = F \<and> get_frame_on_child j' = M \<and>
            joint_state j' = Unbound)) \<and>
   (GetFrameByName tree_clone (frame_name (get_frame_on_parent j)) = None \<or>
    GetFrameByName tree_clone (frame_name (get_frame_on_child j)) = None \<longrightarrow>
      DoCloneToScalar j tree_clone = Inl MissingFrame)"
  by (auto simp: DoCloneToScalar_def TemplatedDoCloneToScalar_def get_name_def
      do_get_num_dofs_def get_revolute_axis_def get_frame_on_parent_def get_frame_on_child_def
      joint_state_def split: option.splits)

text \<open>
  Witness of C5: the bound joint ``knee'' over \<open>real\<close> cloned into the tree over
  pairs of a value and its derivatives, and into a tree that has no frame ``shin''.
\<close>

theorem DoCloneToScalar_preserves_witness:
  "joint_state (knee :: real RevoluteJoint) = Bound \<and>
   (\<exists>j' :: (real \<times> real list) RevoluteJoint.
      DoCloneToScalar (knee :: real RevoluteJoint) leg = Inr j' \<and>
      get_name j' = ''knee'' \<and> do_get_num_dofs j' = 1 \<and> get_revolute_axis j' = (0, 0, 1) \<and>
      get_frame_on_parent j' = thigh \<and> get_frame_on_child j' = shin \<and>
      joint_state j' = Unbound) \<and>
   (DoCloneToScalar (knee :: real RevoluteJoint)
      (\<lparr>frames = [thigh], num_positions = 1, num_velocities = 1\<rparr>
         :: (real \<times> real list) MultibodyTree)
      :: error + (real \<times> real list) RevoluteJoint) = Inl MissingFrame"
proof -
  have b: "joint_state (knee :: real RevoluteJoint) = Bound"
    by (simp add: joint_state_def knee_def)
  have k: "get_name (knee :: real RevoluteJoint) = ''knee''"
    "do_get_num_dofs (knee :: real RevoluteJoint) = 1"
    "get_revolute_axis (knee :: real RevoluteJoint) = (0, 0, 1)"
    by (simp_all add: get_name_def do_get_num_dofs_def get_revolute_axis_def knee_def
        knee_unbound_def)
  have missing: "GetFrameByName
      (\<lparr>frames = [thigh], num_positions = 1, num_velocities = 1\<rparr>
         :: (real \<times> real list) MultibodyTree)
      (frame_name (get_frame_on_child (knee :: real RevoluteJoint))) = None"
    by (simp add: knee_frames GetFrameByName_def thigh_def)
  note there = DoCloneToScalar_preserves
      [where j = "knee :: real RevoluteJoint"
         and tree_clone = "leg :: (real \<times> real list) MultibodyTree", THEN conjunct1,
       THEN spec, THEN spec, THEN mp, OF conjI,
       unfolded knee_frames, OF leg_frames]
  note absent = DoCloneToScalar_preserves
      [where j = "knee :: real RevoluteJoint"
         and tree_clone = "\<lparr>frames = [thigh], num_positions = 1, num_velocities = 1\<rparr>
           :: (real \<times> real list) MultibodyTree", THEN conjunct2, THEN mp, OF disjI2,
       OF missing]
  from there absent b show ?thesis by (simp add: k)
qed

subsection \<open>The blueprint\<close>

text \<open>
  Claim C7. The blueprint of a joint lists exactly one mobilizer, the revolute
  mobilizer made of the parent frame, the child frame and the axis of the joint, which
  for a joint made by the constructor is the normalized axis given to it. The
  blueprint is a function of these three alone: joints that agree on them (whatever
  their names, trees and implementations) have equal blueprints, and so has one joint
  at any two calls.
\<close>

theorem MakeImplementationBlueprint_pure:
  "blueprint_mobilizers (MakeImplementationBlueprint j) =
     [Revolute (RevoluteMobilizer (get_frame_on_parent j) (get_frame_on_child j)
        (get_revolute_axis j))] \<and>
   length (blueprint_mobilizers (MakeImplementationBlueprint j)) = 1 \<and>
   (\<forall>name F M a. RevoluteJoint name F M a = Inr j \<longrightarrow>
      blueprint_mobilizers (MakeImplementationBlueprint j) =
        [Revolute (RevoluteMobilizer F M (normalized a))]) \<and>
   (\<forall>j'. get_frame_on_parent j' = get_frame_on_parent j \<and>
         get_frame_on_child j' = get_frame_on_child j \<and>
         get_revolute_axis j' = get_revolute_axis j \<longrightarrow>
      MakeImplementationBlueprint j' = MakeImplementationBlueprint j)"
  by (auto simp: MakeImplementationBlueprint_def get_revolute_axis_def RevoluteJoint_def
      get_frame_on_parent_def get_frame_on_child_def split: if_splits)

text \<open>
  Witness of C7: the joint constructed with the axis \<open>(0, 0, 2)\<close>, and the same joint
  once added to its tree and bound.
\<close>

theorem MakeImplementationBlueprint_pure_witness:
  "(RevoluteJoint ''knee'' thigh shin (0, 0, 2) :: error + real RevoluteJoint)
     = Inr (knee_unbound\<lparr>joint_parent_tree := None\<rparr>) \<and>
   blueprint_mobilizers
     (MakeImplementationBlueprint (knee_unbound\<lparr>joint_parent_tree := None\<rparr> :: real RevoluteJoint))
     = [Revolute (RevoluteMobilizer thigh shin (0, 0, 1))] \<and>
   MakeImplementationBlueprint (knee :: real RevoluteJoint)
     = MakeImplementationBlueprint (knee_unbound\<lparr>joint_parent_tree := None\<rparr>)"
proof -
  let ?j = "knee_unbound\<lparr>joint_parent_tree := None\<rparr> :: real RevoluteJoint"
  have ok: "(RevoluteJoint ''knee'' thigh shin (0, 0, 2) :: error + real RevoluteJoint) = Inr ?j"
    by (rule knee_constructed)
  have n: "normalized (0, 0, 2) = (0, 0, 1)"
    by (rule normalized_example)
  have same: "get_frame_on_parent (knee :: real RevoluteJoint) = get_frame_on_parent ?j \<and>
      get_frame_on_child (knee :: real RevoluteJoint) = get_frame_on_child ?j \<and>
      get_revolute_axis (knee :: real RevoluteJoint) = get_revolute_axis ?j"
    by (simp add: get_frame_on_parent_def get_frame_on_child_def get_revolute_axis_def
        knee_def)
  note t = MakeImplementationBlueprint_pure [where j = ?j]
  note from_ctor = t [THEN conjunct2, THEN conjunct2, THEN conjunct1, THEN spec, THEN spec,
      THEN spec, THEN spec, THEN mp, OF ok]
  note pure = t [THEN conjunct2, THEN conjunct2, THEN conjunct2, THEN spec, THEN mp, OF same]
  from ok from_ctor pure show ?thesis by (simp add: n)
qed

subsection \<open>An accumulator of the wrong size is refused\<close>

text \<open>
  Claim C8. For a joint in a tree (as every bound joint is), \<open>AddInTorque\<close> with an
  accumulator whose size is not the number of velocities of the tree fails with the
  size-mismatch error: the demand of line 143 fails before the call of line 144, so
  no slot is written and no accumulator is returned.
\<close>

theorem AddInTorque_size_mismatch:
  fixes torque :: "'T::plus"
  assumes "joint_parent_tree j = Some tree"
    and "length (generalized_forces forces) \<noteq> num_velocities tree"
  shows "AddInTorque j ctx torque (Some forces) = Inl SizeMismatch"
  using assms
  by (simp add: AddInTorque_def get_parent_tree_def CheckHasRightSizeForModel_def)

text \<open>
  Witness of C8: the bound joint ``knee'' of the tree with two velocities, and an
  accumulator of three entries.
\<close>

theorem AddInTorque_size_mismatch_witness:
  "get_mobilizer (knee :: real RevoluteJoint) = Inr knee_mobilizer \<and>
   joint_parent_tree (knee :: real RevoluteJoint) = Some leg \<and>
   length (generalized_forces (\<lparr>generalized_forces = [0, 0, 0]\<rparr> :: real MultibodyForces))
     \<noteq> num_velocities (leg :: real MultibodyTree) \<and>
   AddInTorque (knee :: real RevoluteJoint) \<lparr>positions = [0, 0], velocities = [0, 0]\<rparr> 1
     (Some \<lparr>generalized_forces = [0, 0, 0]\<rparr>) = Inl SizeMismatch"
proof -
  have n: "length (generalized_forces (\<lparr>generalized_forces = [0, 0, 0]\<rparr> :: real MultibodyForces))
      \<noteq> num_velocities (leg :: real MultibodyTree)"
    by (simp add: num_velocities_leg)
  from AddInTorque_size_mismatch [OF knee_parent_tree n] n
  show ?thesis by (simp add: get_mobilizer_knee knee_parent_tree)
qed

subsection \<open>Only dof 0 receives a force\<close>

text \<open>
  Claim C10. \<open>DoAddInOneForce\<close> with a dof index other than 0 fails at the demand
  of line 157, for every joint; when it returns, the dof index was 0, the joint has its
  mobilizer, and the accumulator returned is the one given with the force added in the
  slot of that mobilizer and nothing else changed.
\<close>

theorem DoAddInOneForce_dof_zero_only:
  "(joint_dof \<noteq> 0 \<longrightarrow>
      DoAddInOneForce j ctx joint_dof joint_tau forces = Inl DofOutOfRange) \<and>
   (\<forall>forces'. DoAddInOneForce j ctx joint_dof joint_tau forces = Inr forces' \<longrightarrow>
      joint_dof = 0 \<and>
      (\<exists>m. get_mobilizer j = Inr m \<and>
           velocities_start (topology m) < length (generalized_forces forces) \<and>
           generalized_forces forces' =
             (generalized_forces forces)
               [velocities_start (topology m) :=
                  generalized_forces forces ! velocities_start (topology m) + joint_tau]))"
  by (auto simp: DoAddInOneForce_def get_mutable_generalized_forces_from_array_def Let_def
      split: if_splits sum.splits prod.splits)

text \<open>
  Witness of C10: on the joint ``knee'', dof 1 is refused and dof 0 adds the force 5 in
  the second slot.
\<close>

theorem DoAddInOneForce_dof_zero_only_witness:
  "DoAddInOneForce (knee :: real RevoluteJoint) \<lparr>positions = [0, 0], velocities = [0, 0]\<rparr>
     1 5 \<lparr>generalized_forces = [0, 0]\<rparr> = Inl DofOutOfRange \<and>
   DoAddInOneForce (knee :: real RevoluteJoint) \<lparr>positions = [0, 0], velocities = [0, 0]\<rparr>
     0 5 \<lparr>generalized_forces = [0, 0]\<rparr> = Inr \<lparr>generalized_forces = [0, 5]\<rparr>"
proof -
  let ?ctx = "\<lparr>positions = [0, 0], velocities = [0, 0]\<rparr> :: real Context"
  let ?forces = "\<lparr>generalized_forces = [0, 0]\<rparr> :: real MultibodyForces"
  have ne: "(1 :: int) \<noteq> 0" by simp
  note refused = DoAddInOneForce_dof_zero_only
      [where j = "knee :: real RevoluteJoint" and ctx = ?ctx and joint_dof = 1
         and joint_tau = 5 and forces = ?forces, THEN conjunct1, THEN mp, OF ne]
  have accepted: "DoAddInOneForce (knee :: real RevoluteJoint) ?ctx 0 5 ?forces
      = Inr \<lparr>generalized_forces = [0, 5]\<rparr>"
    by (simp add: DoAddInOneForce_def get_mobilizer_knee knee_mobilizer_topology
        get_mutable_generalized_forces_from_array_def)
  note landed = DoAddInOneForce_dof_zero_only
      [where j = "knee :: real RevoluteJoint" and ctx = ?ctx and joint_dof = 0
         and joint_tau = 5 and forces = ?forces, THEN conjunct2, THEN spec, THEN mp,
       OF accepted]
  from refused accepted landed show ?thesis by simp
qed

subsection \<open>The stored axis\<close>

text \<open>
  Facts for the next two theorems. An accepted axis has a coefficient above the machine
  epsilon, so its squared norm does not underflow; and where the squared norm neither
  overflows nor underflows, \<open>normalized\<close> divides by the magnitude.
\<close>

lemma accepted_no_underflow:
  assumes "\<not> isZero (x, y, z) kEpsilon"
  shows "\<not> (x * x \<le> 1 / 2 ^ 1075 \<and> y * y \<le> 1 / 2 ^ 1075 \<and> z * z \<le> 1 / 2 ^ 1075)"
proof -
  have small: "c * c \<le> 1 / 2 ^ 1075 \<Longrightarrow> \<bar>c\<bar> \<le> kEpsilon" for c :: real
  proof (rule ccontr)
    assume a: "c * c \<le> 1 / 2 ^ 1075" and b: "\<not> \<bar>c\<bar> \<le> kEpsilon"
    from b have "kEpsilon < \<bar>c\<bar>" by simp
    with kEpsilon_pos have "kEpsilon * kEpsilon < \<bar>c\<bar> * \<bar>c\<bar>"
      by (intro mult_strict_mono) simp_all
    then have "kEpsilon * kEpsilon < c * c" by simp
    moreover have "(1 :: real) / 2 ^ 1075 \<le> kEpsilon * kEpsilon"
      by (simp add: kEpsilon_def)
    ultimately show False using a by linarith
  qed
  from assms small [of x] small [of y] small [of z] show ?thesis
    by (auto simp: isZero_def)
qed

lemma normalized_in_range:
  assumes "\<not> isZero (x, y, z) kEpsilon" and "x * x + y * y + z * z < 2 ^ 1024"
  shows "normalized (x, y, z) =
           (x / sqrt (x * x + y * y + z * z), y / sqrt (x * x + y * y + z * z),
            z / sqrt (x * x + y * y + z * z)) \<and>
         0 < x * x + y * y + z * z"
proof -
  from assms(1) have "x \<noteq> 0 \<or> y \<noteq> 0 \<or> z \<noteq> 0"
    using kEpsilon_pos unfolding isZero_def by auto
  then have pos: "0 < x * x + y * y + z * z"
    by (metis add_pos_nonneg add_nonneg_pos not_real_square_gt_zero zero_le_square add.assoc)
  have no_underflow:
    "\<not> (x * x \<le> 1 / 2 ^ 1075 \<and> y * y \<le> 1 / 2 ^ 1075 \<and> z * z \<le> 1 / 2 ^ 1075)"
    by (rule accepted_no_underflow [OF assms(1)])
  have no_overflow: "\<not> 2 ^ 1024 \<le> x * x + y * y + z * z"
    using assms(2) by (simp only: not_le)
  have sq: "squaredNorm_double (x, y, z) = Finite (x * x + y * y + z * z)"
    unfolding squaredNorm_double_def prod.case
    using no_underflow no_overflow by (simp only: if_False)
  show ?thesis
    unfolding normalized_def sq using pos by simp
qed

text \<open>
  Claim C6 fails on the code. The axes \<open>(2^700, 0, 0)\<close> (a double, about 5.3e210) and
  \<open>(10^200, 0, 0)\<close> pass the test of line 65, their squared norm overflows, and line
  66 stores the zero vector: \<open>get_revolute_axis\<close> of the joint constructed returns a
  vector of norm 0, which is not a unit vector and has no direction.
\<close>

theorem constructor_stores_zero_axis_on_overflow:
  "(RevoluteJoint ''knee'' thigh shin (2 ^ 700, 0, 0) :: error + real RevoluteJoint)
     = Inr (knee_unbound\<lparr>joint_parent_tree := None, joint_axis := (0, 0, 0)\<rparr>) \<and>
   (RevoluteJoint ''knee'' thigh shin (10 ^ 200, 0, 0) :: error + real RevoluteJoint)
     = Inr (knee_unbound\<lparr>joint_parent_tree := None, joint_axis := (0, 0, 0)\<rparr>) \<and>
   get_revolute_axis
     (knee_unbound\<lparr>joint_parent_tree := None, joint_axis := (0, 0, 0)\<rparr> :: real RevoluteJoint)
     = (0, 0, 0) \<and>
   norm3 (get_revolute_axis
     (knee_unbound\<lparr>joint_parent_tree := None, joint_axis := (0, 0, 0)\<rparr> :: real RevoluteJoint))
     = 0"
proof -
  have big: "(2 :: real) ^ 1024 \<le> 2 ^ 700 * 2 ^ 700"
    by (simp add: power_add [symmetric])
  have big': "(2 :: real) ^ 1024 \<le> 10 ^ 200 * 10 ^ 200"
    by simp
  have accepted: "\<not> isZero (2 ^ 700, 0, 0) kEpsilon" "\<not> isZero (10 ^ 200, 0, 0) kEpsilon"
    by (simp_all add: isZero_def kEpsilon_def)
  have n: "normalized (2 ^ 700, 0, 0) = (0, 0, 0)" "normalized (10 ^ 200, 0, 0) = (0, 0, 0)"
    using big big' by (simp_all add: normalized_def squaredNorm_double_def)
  show ?thesis
    using accepted n
    by (simp add: RevoluteJoint_def knee_unbound_def get_revolute_axis_def norm3_def
        squaredNorm_def)
qed

text \<open>
  Below the overflow of the squared norm, and with the rounding of the finite results
  left out, the axis that the constructor stores has norm 1 and is the given axis
  divided by its (positive) magnitude.
\<close>

theorem get_revolute_axis_unit_exact:
  assumes "RevoluteJoint name F M a = Inr j" and "squaredNorm a < 2 ^ 1024"
  shows "norm3 (get_revolute_axis j) = 1 \<and> 0 < norm3 a \<and>
         get_revolute_axis j =
           (case a of (x, y, z) \<Rightarrow> (x / norm3 a, y / norm3 a, z / norm3 a))"
proof -
  obtain x y z where a: "a = (x, y, z)" by (cases a) auto
  from assms(1) have nz: "\<not> isZero a kEpsilon" and j: "get_revolute_axis j = normalized a"
    by (auto simp: RevoluteJoint_def get_revolute_axis_def split: if_splits)
  let ?s = "sqrt (x * x + y * y + z * z)"
  from normalized_in_range [of x y z] nz assms(2)
  have n: "normalized a = (x / ?s, y / ?s, z / ?s)" and pos: "0 < x * x + y * y + z * z"
    by (simp_all add: a squaredNorm_def)
  from pos have s: "0 < ?s" by simp
  have "(x / ?s) * (x / ?s) + (y / ?s) * (y / ?s) + (z / ?s) * (z / ?s) = 1"
    using pos by (simp add: add_divide_distrib [symmetric])
  then have "norm3 (normalized a) = 1"
    unfolding n by (simp add: norm3_def squaredNorm_def)
  with j n s show ?thesis by (simp add: a norm3_def squaredNorm_def)
qed

text \<open>
  Witness: the axis \<open>(0, 0, 2)\<close>.
\<close>

theorem get_revolute_axis_unit_exact_witness:
  "(RevoluteJoint ''knee'' thigh shin (0, 0, 2) :: error + real RevoluteJoint)
     = Inr (knee_unbound\<lparr>joint_parent_tree := None\<rparr>) \<and>
   squaredNorm (0, 0, 2) < 2 ^ 1024 \<and>
   norm3 (get_revolute_axis (knee_unbound\<lparr>joint_parent_tree := None\<rparr> :: real RevoluteJoint))
     = 1 \<and>
   get_revolute_axis (knee_unbound\<lparr>joint_parent_tree := None\<rparr> :: real RevoluteJoint)
     = (0, 0, 1)"
proof -
  let ?j = "knee_unbound\<lparr>joint_parent_tree := None\<rparr> :: real RevoluteJoint"
  have ok: "(RevoluteJoint ''knee'' thigh shin (0, 0, 2) :: error + real RevoluteJoint) = Inr ?j"
    by (rule knee_constructed)
  have range: "squaredNorm (0, 0, 2) < 2 ^ 1024"
    by (simp add: squaredNorm_def)
  have two: "norm3 (0, 0, 2) = 2"
    by (simp add: norm3_def squaredNorm_def)
  note unit = get_revolute_axis_unit_exact [OF ok range, THEN conjunct1]
  note parallel = get_revolute_axis_unit_exact [OF ok range, THEN conjunct2, THEN conjunct2]
  from parallel have "get_revolute_axis ?j = (0, 0, 1)"
    by (simp add: two)
  with unit ok range show ?thesis by blast
qed

end
